theory Spec2Isabelle
  imports Complex_Main
begin

section \<open>Signal generator (src/services/signalGenerator.js)\<close>

text \<open>
  JavaScript numbers are modelled as real numbers: every arithmetic operation of the source
  is the exact operation on \<open>real\<close>, \<open>Math.floor\<close> is \<open>floor\<close>, \<open>Math.min\<close> and
  \<open>Math.max\<close> are \<open>min\<close> and \<open>max\<close>, \<open>Math.sin\<close> is \<open>sin\<close>. Rounding of IEEE doubles,
  infinities and NaN are outside the model. The readings the code takes from its environment
  (\<open>Date.now()\<close>, \<open>Math.random()\<close>) are explicit arguments.
\<close>

record signal_generator =
  rsiOversold :: real
  rsiOverbought :: real
  minConfidence :: real

text \<open>The constructor of \<open>SignalGenerator\<close>.\<close>

definition SignalGenerator :: signal_generator where
  "SignalGenerator = \<lparr>rsiOversold = 30, rsiOverbought = 70, minConfidence = 0.6\<rparr>"

definition updateRSIThresholds :: "real \<Rightarrow> real \<Rightarrow> signal_generator \<Rightarrow> signal_generator" where
  "updateRSIThresholds oversold overbought g =
     g\<lparr>rsiOversold := oversold, rsiOverbought := overbought\<rparr>"

text \<open>
  A watchlist entry is whatever JavaScript value the caller put into the array. Only a string
  has a \<open>split\<close> method; on any other value \<open>symbol.split('')\<close> raises a TypeError.
\<close>

datatype symbol_value = Symbol string | NotAString

text \<open>\<open>symbol.split('').reduce((a, b) => a + b.charCodeAt(0), 0)\<close>, on single-byte characters.\<close>

definition symbolHash :: "string \<Rightarrow> nat" where
  "symbolHash s = foldl (\<lambda>a b. a + of_char b) 0 s"

record indicators =
  rsi :: real
  sma20 :: real
  sma50 :: real
  currentPrice :: real

record mock_indicators = indicators +
  isMockData :: bool

text \<open>
  The environment of one call of \<open>generateRSISignal\<close>: the clock read by
  \<open>generateMockIndicators\<close> (milliseconds since the epoch), the two draws of \<open>Math.random()\<close>
  (for \<open>sma20\<close>, then for \<open>sma50\<close>), and the clock read again on the neutral branch.
\<close>

record readings =
  nowIndicators :: nat
  random20 :: real
  random50 :: real
  nowOverride :: nat

definition generateMockIndicators :: "nat \<Rightarrow> real \<Rightarrow> real \<Rightarrow> string \<Rightarrow> mock_indicators" where
  "generateMockIndicators now r20 r50 s =
     (let timeBasedSeed = now div (1000 * 60 * 5);
          seed = (timeBasedSeed + symbolHash s) mod 1000;
          rsi0 = 20 + real (seed mod 60) + sin (real seed * 0.1) * 10;
          basePrice = 100 + real (seed mod 100);
          price = basePrice + sin (real seed * 0.05) * 20
      in \<lparr>rsi = max 0 (min 100 rsi0),
          sma20 = price + (r20 - 0.5) * 10,
          sma50 = price + (r50 - 0.5) * 15,
          currentPrice = price,
          isMockData = True\<rparr>)"

text \<open>
  \<open>calculateBuyConfidence\<close> and \<open>calculateSellConfidence\<close>. The quotient is the real quotient;
  it is the code's value whenever the divisor is not zero.
\<close>

definition calculateBuyConfidence :: "signal_generator \<Rightarrow> mock_indicators \<Rightarrow> real" where
  "calculateBuyConfidence g ind =
     (let c0 = 0.6;
          rsiStrength = (rsiOversold g - rsi ind) / rsiOversold g;
          c1 = c0 + rsiStrength * 0.3;
          c2 = (if currentPrice ind > sma20 ind then c1 + 0.1 else c1);
          c3 = (if sma20 ind > sma50 ind then c2 + 0.1 else c2)
      in min c3 1.0)"

definition calculateSellConfidence :: "signal_generator \<Rightarrow> mock_indicators \<Rightarrow> real" where
  "calculateSellConfidence g ind =
     (let c0 = 0.6;
          rsiStrength = (rsi ind - rsiOverbought g) / (100 - rsiOverbought g);
          c1 = c0 + rsiStrength * 0.3;
          c2 = (if currentPrice ind < sma20 ind then c1 + 0.1 else c1);
          c3 = (if sma20 ind < sma50 ind then c2 + 0.1 else c2)
      in min c3 1.0)"

datatype signal_kind = BUY | SELL | HOLD

text \<open>
  The signal object. The \<open>reason\<close> text and the \<open>timestamp\<close> are presentation only and are
  left out; \<open>indicators\<close> is absent from the object built in the \<open>catch\<close> branch.
\<close>

record trading_signal =
  symbol :: symbol_value
  signal :: signal_kind
  confidence :: real
  indicators :: "indicators option"
  shouldExecute :: bool

text \<open>
  Lines 60 to 97 of \<open>generateRSISignal\<close>: the RSI decision, with the mock override on the
  neutral branch. The result is the pair of the local variables \<open>signal\<close> and \<open>confidence\<close>.
\<close>

definition rsiDecision ::
  "signal_generator \<Rightarrow> nat \<Rightarrow> string \<Rightarrow> mock_indicators \<Rightarrow> signal_kind \<times> real" where
  "rsiDecision g now s ind =
     (if rsi ind < rsiOversold g then (BUY, calculateBuyConfidence g ind)
      else if rsi ind > rsiOverbought g then (SELL, calculateSellConfidence g ind)
      else if isMockData ind then
        (let timeBasedSeed = now div (1000 * 60 * 3);
             randomFactor = real ((timeBasedSeed + symbolHash s) mod 100) / 100
         in if randomFactor < 0.25 then
              (if randomFactor < 0.125 then (BUY, 0.5 + randomFactor * 0.3)
               else (SELL, 0.5 + (randomFactor - 0.125) * 2.4))
            else (HOLD, 0))
      else (HOLD, 0))"

text \<open>Lines 99 to 106: the moving-average confirmation applied to every BUY and SELL.\<close>

definition confirmation :: "signal_kind \<Rightarrow> real \<Rightarrow> mock_indicators \<Rightarrow> real" where
  "confirmation sg c ind =
     (if sg = BUY \<and> currentPrice ind > sma20 ind then c + 0.1
      else if sg = SELL \<and> currentPrice ind < sma20 ind then c + 0.1
      else c)"

text \<open>
  Lines 60 to 124: everything \<open>generateRSISignal\<close> does once it holds the indicators. The
  \<open>confidence\<close> field is capped at 1; \<open>shouldExecute\<close> compares the uncapped variable.
\<close>

definition signalFromIndicators ::
  "signal_generator \<Rightarrow> nat \<Rightarrow> string \<Rightarrow> mock_indicators \<Rightarrow> trading_signal" where
  "signalFromIndicators g now s ind =
     (let (sg, c0) = rsiDecision g now s ind;
          c = confirmation sg c0 ind
      in \<lparr>symbol = Symbol s,
          signal = sg,
          confidence = min c 1.0,
          indicators = Some (indicators.truncate ind),
          shouldExecute = (c \<ge> minConfidence g)\<rparr>)"

text \<open>The object returned by the \<open>catch\<close> branch.\<close>

definition errorSignal :: "symbol_value \<Rightarrow> trading_signal" where
  "errorSignal sv =
     \<lparr>symbol = sv, signal = HOLD, confidence = 0, indicators = None, shouldExecute = False\<rparr>"

definition generateRSISignal ::
  "signal_generator \<Rightarrow> readings \<Rightarrow> symbol_value \<Rightarrow> trading_signal" where
  "generateRSISignal g env sv =
     (case sv of
        NotAString \<Rightarrow> errorSignal sv
      | Symbol s \<Rightarrow>
          signalFromIndicators g (nowOverride env) s
            (generateMockIndicators (nowIndicators env) (random20 env) (random50 env) s))"

text \<open>
  \<open>generateSignalsForSymbols\<close>: one call per symbol, in order; \<open>env i\<close> is the environment of
  the call for the symbol at position \<open>i\<close>. \<open>generateRSISignal\<close> raises nothing, so the inner
  \<open>catch\<close> is never entered.
\<close>

definition generateSignalsForSymbols ::
  "signal_generator \<Rightarrow> (nat \<Rightarrow> readings) \<Rightarrow> symbol_value list \<Rightarrow> trading_signal list" where
  "generateSignalsForSymbols g env symbols =
     map (\<lambda>(i, sv). generateRSISignal g (env i) sv) (enumerate 0 symbols)"

text \<open>
  \<open>getPositionSize\<close>. The default \<open>maxPosition = 10\<close> applies to a call without the second
  argument; every call in the repository passes it.
\<close>

definition getPositionSize :: "real \<Rightarrow> real \<Rightarrow> int" where
  "getPositionSize conf maxPosition =
     (let baseSize = \<lfloor>conf * maxPosition\<rfloor> in max 1 baseSize)"

section \<open>Order gateway and trade execution (src/services/automatedTrader.js)\<close>

text \<open>The state of the \<open>AutomatedTrader\<close> singleton; \<open>tradeMinConfidence\<close> is its own
  \<open>minConfidence\<close> field, distinct from the generator's.\<close>

record trader =
  isRunning :: bool
  tradingInterval :: "nat option"
  watchedSymbols :: "symbol_value list"
  maxPositionSize :: real
  tradeMinConfidence :: real

text \<open>The constructor of \<open>AutomatedTrader\<close>.\<close>

definition AutomatedTrader :: trader where
  "AutomatedTrader =
     \<lparr>isRunning = False, tradingInterval = None,
      watchedSymbols = [Symbol ''AAPL'', Symbol ''MSFT'', Symbol ''GOOGL'', Symbol ''TSLA'',
                        Symbol ''SPY''],
      maxPositionSize = 10, tradeMinConfidence = 0.7\<rparr>"

text \<open>The fields of a brokerage order that the code reads.\<close>

record order =
  order_id :: string
  side :: string

record order_data =
  order_symbol :: symbol_value
  qty :: int
  order_side :: string
  order_type :: string
  time_in_force :: string
  client_order_id :: string

text \<open>
  What one execution does to the outside world, in order: the three gateway requests, the
  settle delay (\<open>setTimeout\<close>, in milliseconds) and the warning logged for a failed cancel.
\<close>

datatype action =
  GetOpenOrders symbol_value
| DeleteOrder string
| Wait nat
| PostOrder order_data
| LogWarn string

text \<open>
  The gateway answers a request as it likes: each answer may depend on everything done so
  far. A rejected promise is \<open>Inl message\<close> (for a cancel, \<open>Some message\<close>); so is an answer
  to the query that is not an array of orders, on which \<open>filter\<close> raises.
\<close>

record gateway =
  getOrders :: "action list \<Rightarrow> symbol_value \<Rightarrow> string + order list"
  deleteOrder :: "action list \<Rightarrow> string \<Rightarrow> string option"
  postOrder :: "action list \<Rightarrow> order_data \<Rightarrow> string + string"

fun toLowerCase :: "signal_kind \<Rightarrow> string" where
  "toLowerCase BUY = ''buy''"
| "toLowerCase SELL = ''sell''"
| "toLowerCase HOLD = ''hold''"

text \<open>The result object; a field the object does not have is \<open>None\<close>.\<close>

record trade_result =
  success :: bool
  orderId :: "string option"
  error_message :: "string option"
  result_signal :: trading_signal
  positionSize :: "int option"

text \<open>The loop over \<open>oppositeSideOrders\<close>, with its inner \<open>try\<close>/\<open>catch\<close>.\<close>

fun cancelOrders :: "gateway \<Rightarrow> action list \<Rightarrow> order list \<Rightarrow> action list" where
  "cancelOrders gw hist [] = []"
| "cancelOrders gw hist (od # ods) =
     (let acts = (case deleteOrder gw hist (order_id od) of
                    None \<Rightarrow> [DeleteOrder (order_id od)]
                  | Some msg \<Rightarrow> [DeleteOrder (order_id od), LogWarn msg])
      in acts @ cancelOrders gw (hist @ acts) ods)"

text \<open>The cancel requests among a list of actions.\<close>

definition isDelete :: "action \<Rightarrow> bool" where
  "isDelete a = (case a of DeleteOrder i \<Rightarrow> True | _ \<Rightarrow> False)"

definition oppositeSideOrders :: "trading_signal \<Rightarrow> order list \<Rightarrow> order list" where
  "oppositeSideOrders s existingOrders =
     filter (\<lambda>od. side od \<noteq> toLowerCase (signal s)) existingOrders"

text \<open>The cancellation pass and the settle delay (lines 121 to 133).\<close>

definition cancellationPass :: "gateway \<Rightarrow> action list \<Rightarrow> order list \<Rightarrow> action list" where
  "cancellationPass gw hist opp =
     (if length opp > 0 then cancelOrders gw hist opp @ [Wait 1000] else [])"

definition orderData :: "trading_signal \<Rightarrow> int \<Rightarrow> string \<Rightarrow> order_data" where
  "orderData s psize tag =
     \<lparr>order_symbol = symbol s, qty = psize, order_side = toLowerCase (signal s),
      order_type = ''market'', time_in_force = ''day'',
      client_order_id = ''automation_'' @ tag\<rparr>"

text \<open>
  The body of the \<open>try\<close> block of \<open>executeTradeFromSignal\<close>: the actions performed after
  \<open>hist\<close>, and either the message of the exception raised (\<open>Inl\<close>) or the object returned.
  \<open>tag\<close> is the unique suffix of the client order id.
\<close>

definition tryExecute ::
  "gateway \<Rightarrow> trader \<Rightarrow> string \<Rightarrow> action list \<Rightarrow> trading_signal
     \<Rightarrow> action list \<times> (string + trade_result)" where
  "tryExecute gw t tag hist s =
     (let psize = getPositionSize (confidence s) (maxPositionSize t);
          query = [GetOpenOrders (symbol s)]
      in case getOrders gw hist (symbol s) of
           Inl msg \<Rightarrow> (query, Inl msg)
         | Inr existingOrders \<Rightarrow>
             (let opp = oppositeSideOrders s existingOrders;
                  performed = query @ cancellationPass gw (hist @ query) opp;
                  od = orderData s psize tag
              in case postOrder gw (hist @ performed) od of
                   Inl msg \<Rightarrow> (performed @ [PostOrder od], Inl msg)
                 | Inr oid \<Rightarrow>
                     (performed @ [PostOrder od],
                      Inr \<lparr>success = True, orderId = Some oid, error_message = None,
                           result_signal = s, positionSize = Some psize\<rparr>)))"

definition executeTradeFromSignal ::
  "gateway \<Rightarrow> trader \<Rightarrow> string \<Rightarrow> action list \<Rightarrow> trading_signal
     \<Rightarrow> action list \<times> trade_result" where
  "executeTradeFromSignal gw t tag hist s =
     (case tryExecute gw t tag hist s of
        (acts, Inr r) \<Rightarrow> (acts, r)
      | (acts, Inl msg) \<Rightarrow>
          (acts, \<lparr>success = False, orderId = None, error_message = Some msg,
                  result_signal = s, positionSize = None\<rparr>))"

text \<open>The filter of \<open>checkAndExecuteTrades\<close> (lines 73 to 77).\<close>

definition executableSignals :: "trader \<Rightarrow> trading_signal list \<Rightarrow> trading_signal list" where
  "executableSignals t signals =
     filter (\<lambda>s. shouldExecute s \<and> confidence s \<ge> tradeMinConfidence t \<and> signal s \<noteq> HOLD)
       signals"

text \<open>The loop over the executable signals, with the delay of one second after each trade.\<close>

fun executeAll ::
  "gateway \<Rightarrow> trader \<Rightarrow> (nat \<Rightarrow> string) \<Rightarrow> nat \<Rightarrow> action list \<Rightarrow> trading_signal list
     \<Rightarrow> action list" where
  "executeAll gw t tags i hist [] = hist"
| "executeAll gw t tags i hist (s # ss) =
     (let (acts, r) = executeTradeFromSignal gw t (tags i) hist s
      in executeAll gw t tags (i + 1) (hist @ acts @ [Wait 1000]) ss)"

definition checkAndExecuteTrades ::
  "gateway \<Rightarrow> signal_generator \<Rightarrow> trader \<Rightarrow> (nat \<Rightarrow> readings) \<Rightarrow> (nat \<Rightarrow> string)
     \<Rightarrow> action list" where
  "checkAndExecuteTrades gw g t env tags =
     executeAll gw t tags 0 []
       (executableSignals t (generateSignalsForSymbols g env (watchedSymbols t)))"

section \<open>Parameters\<close>

text \<open>
  The argument of \<open>updateParameters\<close>: a field that is \<open>undefined\<close> is \<open>None\<close>. The tests
  \<open>if (params.x)\<close> are JavaScript truthiness: an array is truthy (also the empty one), a
  number is truthy unless it is 0.
\<close>

record parameters =
  symbols :: "symbol_value list option"
  newMaxPositionSize :: "real option"
  newMinConfidence :: "real option"

definition truthy :: "real option \<Rightarrow> bool" where
  "truthy v = (case v of None \<Rightarrow> False | Some x \<Rightarrow> x \<noteq> 0)"

definition updateParameters :: "parameters \<Rightarrow> trader \<Rightarrow> trader" where
  "updateParameters params t =
     (let t1 = (case symbols params of Some syms \<Rightarrow> t\<lparr>watchedSymbols := syms\<rparr> | None \<Rightarrow> t);
          t2 = (if truthy (newMaxPositionSize params)
                then t1\<lparr>maxPositionSize := the (newMaxPositionSize params)\<rparr> else t1);
          t3 = (if truthy (newMinConfidence params)
                then t2\<lparr>tradeMinConfidence := the (newMinConfidence params)\<rparr> else t2)
      in t3)"

section \<open>The scheduler: start and stop\<close>

text \<open>
  The process around the singleton: the timers that \<open>setInterval\<close> has armed and
  \<open>clearInterval\<close> has not cleared (handle and period in milliseconds), the next fresh
  handle, the calls of \<open>startTrading\<close> that are suspended at
  \<open>await this.checkAndExecuteTrades()\<close> (each with its \<open>intervalMinutes\<close>), and the number of
  cycles begun so far. A cycle reads the trader's fields and writes none of them.
\<close>

record process =
  loop :: trader
  timers :: "(nat \<times> real) list"
  nextHandle :: nat
  awaiting :: "real list"
  cycles :: nat

definition process0 :: process where
  "process0 = \<lparr>loop = AutomatedTrader, timers = [], nextHandle = 1, awaiting = [], cycles = 0\<rparr>"

text \<open>
  \<open>startTrading\<close> up to its \<open>await\<close> (lines 20 to 34): the gate, the watchlist, the flag, and
  the first cycle begun.
\<close>

definition startTrading_call :: "symbol_value list option \<Rightarrow> real \<Rightarrow> process \<Rightarrow> process" where
  "startTrading_call syms intervalMinutes p =
     (if isRunning (loop p) then p
      else
        (let l1 = (case syms of Some xs \<Rightarrow> (loop p)\<lparr>watchedSymbols := xs\<rparr> | None \<Rightarrow> loop p);
             l2 = l1\<lparr>isRunning := True\<rparr>
         in p\<lparr>loop := l2, cycles := cycles p + 1, awaiting := awaiting p @ [intervalMinutes]\<rparr>))"

text \<open>
  The period with which Node's \<open>setInterval\<close> arms a timer for a given delay in
  milliseconds: a delay larger than 2147483647 or less than 1 is set to 1, and a delay in
  that range is truncated to whole milliseconds.
\<close>

definition timerDelay :: "real \<Rightarrow> real" where
  "timerDelay delay =
     (if 1 \<le> delay \<and> delay \<le> 2147483647 then of_int \<lfloor>delay\<rfloor> else 1)"

text \<open>
  \<open>startTrading\<close> after its \<open>await\<close> (lines 37 to 41), for the suspended call at position \<open>i\<close>:
  \<open>setInterval\<close> arms a timer on the delay \<open>intervalMinutes * 60 * 1000\<close> and its handle is
  stored.
\<close>

definition startTrading_resume :: "nat \<Rightarrow> process \<Rightarrow> process" where
  "startTrading_resume i p =
     (if i < length (awaiting p) then
        (let h = nextHandle p;
             period = timerDelay ((awaiting p ! i) * 60 * 1000)
         in p\<lparr>loop := (loop p)\<lparr>tradingInterval := Some h\<rparr>,
              timers := timers p @ [(h, period)],
              nextHandle := h + 1,
              awaiting := take i (awaiting p) @ drop (Suc i) (awaiting p)\<rparr>)
      else p)"

definition clearInterval :: "nat \<Rightarrow> (nat \<times> real) list \<Rightarrow> (nat \<times> real) list" where
  "clearInterval h ts = filter (\<lambda>(h', period). h' \<noteq> h) ts"

definition stopTrading :: "process \<Rightarrow> process" where
  "stopTrading p =
     (if \<not> isRunning (loop p) then p
      else
        (case tradingInterval (loop p) of
           Some h \<Rightarrow> p\<lparr>loop := (loop p)\<lparr>isRunning := False, tradingInterval := None\<rparr>,
                        timers := clearInterval h (timers p)\<rparr>
         | None \<Rightarrow> p\<lparr>loop := (loop p)\<lparr>isRunning := False\<rparr>\<rparr>))"

text \<open>A call of \<open>startTrading\<close> that nothing interleaves with: the call, then its own resumption.\<close>

definition startTrading :: "symbol_value list option \<Rightarrow> real \<Rightarrow> process \<Rightarrow> process" where
  "startTrading syms intervalMinutes p =
     (if isRunning (loop p) then p
      else
        (let p1 = startTrading_call syms intervalMinutes p
         in startTrading_resume (length (awaiting p1) - 1) p1))"

text \<open>What the event loop may run next.\<close>

datatype event =
  CallStart "symbol_value list option" real
| ResumeStart nat
| CallStop
| TimerFires nat

fun step :: "process \<Rightarrow> event \<Rightarrow> process" where
  "step p (CallStart syms intervalMinutes) = startTrading_call syms intervalMinutes p"
| "step p (ResumeStart i) = startTrading_resume i p"
| "step p CallStop = stopTrading p"
| "step p (TimerFires h) =
     (if h \<in> fst ` set (timers p) then p\<lparr>cycles := cycles p + 1\<rparr> else p)"

definition run :: "process \<Rightarrow> event list \<Rightarrow> process" where
  "run p evs = foldl step p evs"

text \<open>
  The handler of \<open>POST /api/automation/start\<close> (src/routes/automation.js): the validators
  of \<open>symbols\<close> and \<open>intervalMinutes\<close>, the default of 10 minutes, and the call. The result is
  the HTTP status and the process afterwards.
\<close>

record start_body =
  body_symbols :: "symbol_value list option"
  body_intervalMinutes :: "real option"

definition isString :: "symbol_value \<Rightarrow> bool" where
  "isString v = (case v of Symbol s \<Rightarrow> True | NotAString \<Rightarrow> False)"

definition isInt :: "real \<Rightarrow> real \<Rightarrow> real \<Rightarrow> bool" where
  "isInt lo hi x = (of_int \<lfloor>x\<rfloor> = x \<and> lo \<le> x \<and> x \<le> hi)"

definition validStart :: "start_body \<Rightarrow> bool" where
  "validStart b =
     ((case body_symbols b of None \<Rightarrow> True | Some xs \<Rightarrow> list_all isString xs)
      \<and> (case body_intervalMinutes b of None \<Rightarrow> True | Some x \<Rightarrow> isInt 1 1440 x))"

definition postStart :: "start_body \<Rightarrow> process \<Rightarrow> nat \<times> process" where
  "postStart b p =
     (if \<not> validStart b then (400, p)
      else
        (let intervalMinutes = (case body_intervalMinutes b of None \<Rightarrow> 10 | Some x \<Rightarrow> x)
         in (200, startTrading (body_symbols b) intervalMinutes p)))"

text \<open>
  The handler of \<open>PUT /api/automation/parameters\<close>: the five validators, then
  \<open>updateParameters\<close>, then \<open>updateRSIThresholds\<close> when both thresholds are given. The state
  is the pair of the two singletons.
\<close>

record parameters_body =
  put_symbols :: "symbol_value list option"
  put_maxPositionSize :: "real option"
  put_minConfidence :: "real option"
  put_rsiOversold :: "real option"
  put_rsiOverbought :: "real option"

definition isFloat :: "real \<Rightarrow> real \<Rightarrow> real \<Rightarrow> bool" where
  "isFloat lo hi x = (lo \<le> x \<and> x \<le> hi)"

definition optional :: "('a \<Rightarrow> bool) \<Rightarrow> 'a option \<Rightarrow> bool" where
  "optional check v = (case v of None \<Rightarrow> True | Some x \<Rightarrow> check x)"

definition validParameters :: "parameters_body \<Rightarrow> bool" where
  "validParameters b =
     (optional (list_all isString) (put_symbols b)
      \<and> optional (isInt 1 100) (put_maxPositionSize b)
      \<and> optional (isFloat 0 1) (put_minConfidence b)
      \<and> optional (isInt 10 40) (put_rsiOversold b)
      \<and> optional (isInt 60 90) (put_rsiOverbought b))"

definition putParameters ::
  "parameters_body \<Rightarrow> trader \<times> signal_generator \<Rightarrow> nat \<times> trader \<times> signal_generator" where
  "putParameters b st =
     (case st of (t, g) \<Rightarrow>
        if \<not> validParameters b then (400, t, g)
        else
          (let t' = updateParameters
                      \<lparr>symbols = put_symbols b, newMaxPositionSize = put_maxPositionSize b,
                       newMinConfidence = put_minConfidence b\<rparr> t;
               g' = (case (put_rsiOversold b, put_rsiOverbought b) of
                       (Some lo, Some hi) \<Rightarrow> updateRSIThresholds lo hi g
                     | _ \<Rightarrow> g)
           in (200, t', g')))"

section \<open>Concrete inputs\<close>

text \<open>
  A call of \<open>generateRSISignal\<close> for \<open>AAPL\<close>: the clock reads 1700320340000 ms, the draw for
  \<open>sma20\<close> is 0 and the draw for \<open>sma50\<close> is 0.5. The indicator seed is 20 and the override
  factor is 0.10; \<open>indicators0\<close> are the indicators of that call.
\<close>

definition env0 :: readings where
  "env0 = \<lparr>nowIndicators = 1700320340000, random20 = 0, random50 = 1 / 2,
            nowOverride = 1700320340000\<rparr>"

definition indicators0 :: mock_indicators where
  "indicators0 = \<lparr>rsi = 40 + sin 2 * 10, sma20 = 115 + sin 1 * 20, sma50 = 120 + sin 1 * 20,
      currentPrice = 120 + sin 1 * 20, isMockData = True\<rparr>"

text \<open>
  A BUY signal of confidence 0.9; a gateway that reports one open SELL and one open BUY order,
  rejects every cancel and accepts every new order; and a gateway that fails every request.
\<close>

definition buySignal :: trading_signal where
  "buySignal = \<lparr>symbol = Symbol ''AAPL'', signal = BUY, confidence = 9 / 10,
     indicators = Some \<lparr>rsi = 25, sma20 = 110, sma50 = 100, currentPrice = 112\<rparr>,
     shouldExecute = True\<rparr>"

definition gateway0 :: gateway where
  "gateway0 =
     \<lparr>getOrders = (\<lambda>hist sv. Inr [\<lparr>order_id = ''o1'', side = ''sell''\<rparr>,
                                     \<lparr>order_id = ''o2'', side = ''buy''\<rparr>]),
      deleteOrder = (\<lambda>hist i. Some ''cancel rejected''),
      postOrder = (\<lambda>hist od. Inr ''n1'')\<rparr>"

definition gatewayDown :: gateway where
  "gatewayDown =
     \<lparr>getOrders = (\<lambda>hist sv. Inl ''Network Error''),
      deleteOrder = (\<lambda>hist i. Some ''Network Error''),
      postOrder = (\<lambda>hist od. Inl ''Network Error'')\<rparr>"

section \<open>Position size\<close>

lemma getPositionSize_mono:
  assumes "0 < m" and "c1 \<le> c2"
  shows "getPositionSize c1 m \<le> getPositionSize c2 m"
proof -
  from assms have "c1 * m \<le> c2 * m"
    by (simp add: mult_right_mono)
  then have "\<lfloor>c1 * m\<rfloor> \<le> \<lfloor>c2 * m\<rfloor>"
    by (rule floor_mono)
  then show ?thesis
    by (simp add: getPositionSize_def)
qed

text \<open>
  C7: \<open>getPositionSize confidence maxPosition\<close> is \<open>max 1 (floor (confidence * maxPosition))\<close>;
  it is an integer that is at least 1; for a fixed positive \<open>maxPosition\<close> it is monotonically
  non-decreasing in the confidence; and \<open>getPositionSize 0.9 5 = 4\<close>.
\<close>

theorem C7_getPositionSize:
  "getPositionSize c m = max 1 \<lfloor>c * m\<rfloor>
   \<and> 1 \<le> getPositionSize c m
   \<and> (0 < m \<and> c1 \<le> c2 \<longrightarrow> getPositionSize c1 m \<le> getPositionSize c2 m)
   \<and> getPositionSize 0.9 5 = 4"
proof -
  have "\<lfloor>(0.9::real) * 5\<rfloor> = 4"
    by (simp add: floor_eq_iff)
  then have "getPositionSize 0.9 5 = 4"
    by (simp add: getPositionSize_def)
  then show ?thesis
    using getPositionSize_mono [of m c1 c2] by (simp add: getPositionSize_def)
qed

theorem C7_getPositionSize_witness:
  "(0::real) < 10 \<and> (0.5::real) \<le> 0.75
   \<and> getPositionSize 0.5 10 = 5 \<and> getPositionSize 0.75 10 = 7
   \<and> getPositionSize 0.5 10 \<le> getPositionSize 0.75 10"
proof -
  have a: "getPositionSize 0.5 10 = 5"
    by (simp add: getPositionSize_def)
  have "\<lfloor>(0.75::real) * 10\<rfloor> = 7"
    by (simp add: floor_eq_iff)
  then have b: "getPositionSize 0.75 10 = 7"
    by (simp add: getPositionSize_def)
  show ?thesis
    using C7_getPositionSize [of "0.5" 10 "0.5" "0.75"] a b by simp
qed

section \<open>Confidence of generated signals\<close>

lemma rsi_generateMockIndicators:
  "0 \<le> rsi (generateMockIndicators now r20 r50 s)
   \<and> rsi (generateMockIndicators now r20 r50 s) \<le> 100"
  by (simp add: generateMockIndicators_def Let_def)

lemma calculateBuyConfidence_range:
  assumes "0 \<le> rsi ind" "rsi ind < rsiOversold g"
  shows "0.6 \<le> calculateBuyConfidence g ind \<and> calculateBuyConfidence g ind \<le> 1"
proof -
  define x where "x = (rsiOversold g - rsi ind) / rsiOversold g"
  have eq: "calculateBuyConfidence g ind =
      min (if sma20 ind > sma50 ind
           then (if currentPrice ind > sma20 ind then 0.6 + x * 0.3 + 0.1 else 0.6 + x * 0.3) + 0.1
           else (if currentPrice ind > sma20 ind then 0.6 + x * 0.3 + 0.1 else 0.6 + x * 0.3)) 1.0"
    unfolding calculateBuyConfidence_def x_def Let_def by (rule refl)
  have "0 \<le> x" using assms by (simp add: x_def)
  then show ?thesis
    unfolding eq by (auto simp: min_def)
qed

lemma calculateSellConfidence_range:
  assumes "rsi ind \<le> 100" "rsi ind > rsiOverbought g"
  shows "0.6 \<le> calculateSellConfidence g ind \<and> calculateSellConfidence g ind \<le> 1"
proof -
  define x where "x = (rsi ind - rsiOverbought g) / (100 - rsiOverbought g)"
  have eq: "calculateSellConfidence g ind =
      min (if sma20 ind < sma50 ind
           then (if currentPrice ind < sma20 ind then 0.6 + x * 0.3 + 0.1 else 0.6 + x * 0.3) + 0.1
           else (if currentPrice ind < sma20 ind then 0.6 + x * 0.3 + 0.1 else 0.6 + x * 0.3)) 1.0"
    unfolding calculateSellConfidence_def x_def Let_def by (rule refl)
  have "0 \<le> x" using assms by (simp add: x_def)
  then show ?thesis
    unfolding eq by (auto simp: min_def)
qed

lemma rsiDecision_nonneg:
  assumes "0 \<le> rsi ind" "rsi ind \<le> 100"
  shows "0 \<le> snd (rsiDecision g now s ind)"
  using assms calculateBuyConfidence_range [of ind g] calculateSellConfidence_range [of ind g]
  by (auto simp add: rsiDecision_def Let_def)

lemma confidence_signalFromIndicators_range:
  assumes "0 \<le> rsi ind" "rsi ind \<le> 100"
  shows "0 \<le> confidence (signalFromIndicators g now s ind)
    \<and> confidence (signalFromIndicators g now s ind) \<le> 1"
  using rsiDecision_nonneg [OF assms, of g now s]
  by (auto simp add: signalFromIndicators_def confirmation_def Let_def split: prod.splits)

lemma confidence_generateRSISignal_range:
  "0 \<le> confidence (generateRSISignal g env sv) \<and> confidence (generateRSISignal g env sv) \<le> 1"
  using confidence_signalFromIndicators_range
    [OF rsi_generateMockIndicators [THEN conjunct1] rsi_generateMockIndicators [THEN conjunct2]]
  by (cases sv) (simp_all add: generateRSISignal_def errorSignal_def)

lemma confidence_signalFromIndicators:
  "confidence (signalFromIndicators g now s ind) =
     min (confirmation (fst (rsiDecision g now s ind)) (snd (rsiDecision g now s ind)) ind) 1"
  by (simp add: signalFromIndicators_def Let_def split: prod.splits)

lemma signal_signalFromIndicators:
  "signal (signalFromIndicators g now s ind) = fst (rsiDecision g now s ind)"
  by (simp add: signalFromIndicators_def Let_def split: prod.splits)

lemma shouldExecute_signalFromIndicators:
  "shouldExecute (signalFromIndicators g now s ind) =
     (confirmation (fst (rsiDecision g now s ind)) (snd (rsiDecision g now s ind)) ind
        \<ge> minConfidence g)"
  by (simp add: signalFromIndicators_def Let_def split: prod.splits)

text \<open>
  C2 fails on the code: for the indicators of the example, under the thresholds 30 and 70,
  the confidence of the generated signal is 0.95, not 0.8667. The three boosts add up to 0.85
  in \<open>calculateBuyConfidence\<close>, and \<open>generateRSISignal\<close> adds 0.1 once more because the price
  is above \<open>sma20\<close>.
\<close>

theorem C2_counterexample:
  "confidence (signalFromIndicators SignalGenerator 0 ''AAPL''
      \<lparr>rsi = 25, sma20 = 110, sma50 = 100, currentPrice = 112, isMockData = True\<rparr>) = 0.95
   \<and> \<bar>confidence (signalFromIndicators SignalGenerator 0 ''AAPL''
      \<lparr>rsi = 25, sma20 = 110, sma50 = 100, currentPrice = 112, isMockData = True\<rparr>) - 0.8667\<bar> > 0.08"
  by (simp add: signalFromIndicators_def rsiDecision_def confirmation_def
      calculateBuyConfidence_def SignalGenerator_def Let_def)

text \<open>
  C2 as amended: for the indicators \<open>rsi = 25\<close>, \<open>sma20 = 110\<close>, \<open>sma50 = 100\<close>,
  \<open>currentPrice = 112\<close> under the thresholds 30 and 70 the signal is BUY,
  \<open>calculateBuyConfidence\<close> returns 0.85, the confidence of the signal is 0.95, and
  \<open>shouldExecute\<close> holds exactly when the generator's \<open>minConfidence\<close> is at most 0.95. In
  general \<open>calculateBuyConfidence\<close> and \<open>calculateSellConfidence\<close> are the base 0.6 plus 0.3
  times the RSI strength plus 0.1 for each of the two moving-average alignments, capped at 1;
  the confidence of a signal decided by the RSI is that value plus a further 0.1 when the
  price confirms against \<open>sma20\<close>, capped at 1 again.
\<close>

theorem C2_confidence:
  "(rsiOversold g = 30 \<and> rsiOverbought g = 70 \<and> rsi ind = 25 \<and> sma20 ind = 110
      \<and> sma50 ind = 100 \<and> currentPrice ind = 112 \<longrightarrow>
      signal (signalFromIndicators g now s ind) = BUY
      \<and> calculateBuyConfidence g ind = 0.85
      \<and> confidence (signalFromIndicators g now s ind) = 0.95
      \<and> (shouldExecute (signalFromIndicators g now s ind) \<longleftrightarrow> minConfidence g \<le> 0.95))
   \<and> calculateBuyConfidence g ind =
        min (0.6 + (rsiOversold g - rsi ind) / rsiOversold g * 0.3
               + (if currentPrice ind > sma20 ind then 0.1 else 0)
               + (if sma20 ind > sma50 ind then 0.1 else 0)) 1
   \<and> calculateSellConfidence g ind =
        min (0.6 + (rsi ind - rsiOverbought g) / (100 - rsiOverbought g) * 0.3
               + (if currentPrice ind < sma20 ind then 0.1 else 0)
               + (if sma20 ind < sma50 ind then 0.1 else 0)) 1
   \<and> (rsi ind < rsiOversold g \<longrightarrow>
        signal (signalFromIndicators g now s ind) = BUY
        \<and> confidence (signalFromIndicators g now s ind) =
            min (calculateBuyConfidence g ind
                   + (if currentPrice ind > sma20 ind then 0.1 else 0)) 1)
   \<and> (\<not> rsi ind < rsiOversold g \<and> rsi ind > rsiOverbought g \<longrightarrow>
        signal (signalFromIndicators g now s ind) = SELL
        \<and> confidence (signalFromIndicators g now s ind) =
            min (calculateSellConfidence g ind
                   + (if currentPrice ind < sma20 ind then 0.1 else 0)) 1)"
proof -
  have ex: "rsiOversold g = 30 \<and> rsiOverbought g = 70 \<and> rsi ind = 25 \<and> sma20 ind = 110
      \<and> sma50 ind = 100 \<and> currentPrice ind = 112 \<longrightarrow>
      signal (signalFromIndicators g now s ind) = BUY
      \<and> calculateBuyConfidence g ind = 0.85
      \<and> confidence (signalFromIndicators g now s ind) = 0.95
      \<and> (shouldExecute (signalFromIndicators g now s ind) \<longleftrightarrow> minConfidence g \<le> 0.95)"
    by (auto simp add: signal_signalFromIndicators confidence_signalFromIndicators
        shouldExecute_signalFromIndicators rsiDecision_def confirmation_def
        calculateBuyConfidence_def Let_def)
  have buy: "calculateBuyConfidence g ind =
        min (0.6 + (rsiOversold g - rsi ind) / rsiOversold g * 0.3
               + (if currentPrice ind > sma20 ind then 0.1 else 0)
               + (if sma20 ind > sma50 ind then 0.1 else 0)) 1"
    by (simp add: calculateBuyConfidence_def Let_def)
  have sell: "calculateSellConfidence g ind =
        min (0.6 + (rsi ind - rsiOverbought g) / (100 - rsiOverbought g) * 0.3
               + (if currentPrice ind < sma20 ind then 0.1 else 0)
               + (if sma20 ind < sma50 ind then 0.1 else 0)) 1"
    by (simp add: calculateSellConfidence_def Let_def)
  have b: "rsi ind < rsiOversold g \<longrightarrow>
        signal (signalFromIndicators g now s ind) = BUY
        \<and> confidence (signalFromIndicators g now s ind) =
            min (calculateBuyConfidence g ind
                   + (if currentPrice ind > sma20 ind then 0.1 else 0)) 1"
    by (simp add: signal_signalFromIndicators confidence_signalFromIndicators
        rsiDecision_def confirmation_def)
  have c: "\<not> rsi ind < rsiOversold g \<and> rsi ind > rsiOverbought g \<longrightarrow>
        signal (signalFromIndicators g now s ind) = SELL
        \<and> confidence (signalFromIndicators g now s ind) =
            min (calculateSellConfidence g ind
                   + (if currentPrice ind < sma20 ind then 0.1 else 0)) 1"
    by (simp add: signal_signalFromIndicators confidence_signalFromIndicators
        rsiDecision_def confirmation_def)
  from ex buy sell b c show ?thesis by blast
qed

theorem C2_confidence_witness:
  "(rsiOversold SignalGenerator = 30 \<and> rsiOverbought SignalGenerator = 70
    \<and> rsi \<lparr>rsi = 25, sma20 = 110, sma50 = 100, currentPrice = 112, isMockData = True\<rparr>
         < rsiOversold SignalGenerator
    \<and> signal (signalFromIndicators SignalGenerator 0 ''AAPL''
         \<lparr>rsi = 25, sma20 = 110, sma50 = 100, currentPrice = 112, isMockData = True\<rparr>) = BUY
    \<and> shouldExecute (signalFromIndicators SignalGenerator 0 ''AAPL''
         \<lparr>rsi = 25, sma20 = 110, sma50 = 100, currentPrice = 112, isMockData = True\<rparr>))
   \<and> (\<not> rsi \<lparr>rsi = 80, sma20 = 100, sma50 = 110, currentPrice = 90, isMockData = True\<rparr>
           < rsiOversold SignalGenerator
    \<and> rsi \<lparr>rsi = 80, sma20 = 100, sma50 = 110, currentPrice = 90, isMockData = True\<rparr>
         > rsiOverbought SignalGenerator
    \<and> signal (signalFromIndicators SignalGenerator 0 ''AAPL''
         \<lparr>rsi = 80, sma20 = 100, sma50 = 110, currentPrice = 90, isMockData = True\<rparr>) = SELL)"
  using C2_confidence [of SignalGenerator
      "\<lparr>rsi = 25, sma20 = 110, sma50 = 100, currentPrice = 112, isMockData = True\<rparr>" 0 "''AAPL''"]
    C2_confidence [of SignalGenerator
      "\<lparr>rsi = 80, sma20 = 100, sma50 = 110, currentPrice = 90, isMockData = True\<rparr>" 0 "''AAPL''"]
  by (simp add: SignalGenerator_def)

text \<open>
  C3: the confidence of every signal that \<open>generateRSISignal\<close> returns lies in [0,1], for
  every threshold configuration, every clock reading, every random draw and every symbol
  (also the one the \<open>catch\<close> branch answers); and for arbitrary indicator values whose
  \<open>rsi\<close> is in [0,100] the confidence computed from them lies in [0,1].
\<close>

theorem C3_confidence_range:
  "0 \<le> confidence (generateRSISignal g env sv) \<and> confidence (generateRSISignal g env sv) \<le> 1
   \<and> (0 \<le> rsi ind \<and> rsi ind \<le> 100 \<longrightarrow>
        0 \<le> confidence (signalFromIndicators g now s ind)
        \<and> confidence (signalFromIndicators g now s ind) \<le> 1)"
  using confidence_generateRSISignal_range [of g env sv]
    confidence_signalFromIndicators_range [of ind g now s]
  by blast

theorem C3_confidence_range_witness:
  "(0::real) \<le> 25 \<and> (25::real) \<le> 100
   \<and> 0 \<le> confidence (signalFromIndicators SignalGenerator 0 ''AAPL''
        \<lparr>rsi = 25, sma20 = 110, sma50 = 100, currentPrice = 112, isMockData = True\<rparr>)
   \<and> confidence (signalFromIndicators SignalGenerator 0 ''AAPL''
        \<lparr>rsi = 25, sma20 = 110, sma50 = 100, currentPrice = 112, isMockData = True\<rparr>) \<le> 1"
  using C3_confidence_range [of SignalGenerator env0 "Symbol ''AAPL''"
      "\<lparr>rsi = 25, sma20 = 110, sma50 = 100, currentPrice = 112, isMockData = True\<rparr>" 0 "''AAPL''"]
  by simp

section \<open>Determinism of the indicator source\<close>

text \<open>
  The seeded part of the indicators: for two clock readings in the same five-minute bucket
  and the same symbol, \<open>rsi\<close> and \<open>currentPrice\<close> are identical whatever the random draws
  are, and all four values are identical when the two draws are.
\<close>

lemma generateMockIndicators_seeded:
  assumes "now div 300000 = now' div 300000"
  shows "rsi (generateMockIndicators now r20 r50 s) = rsi (generateMockIndicators now' r20' r50' s)
    \<and> currentPrice (generateMockIndicators now r20 r50 s)
        = currentPrice (generateMockIndicators now' r20' r50' s)
    \<and> generateMockIndicators now r20 r50 s = generateMockIndicators now' r20 r50 s"
  using assms by (simp add: generateMockIndicators_def Let_def)

text \<open>
  C5 on the code: at the same clock reading, hence in the same time bucket, and for the same
  symbol, two evaluations of the indicator source whose draws of \<open>Math.random()\<close> differ
  return different values of \<open>sma20\<close> (and likewise of \<open>sma50\<close>), while \<open>rsi\<close> and
  \<open>currentPrice\<close> agree.
\<close>

theorem C5_same_bucket_different_sma:
  "sma20 (generateMockIndicators 1700320340000 0 0.5 ''AAPL'')
     \<noteq> sma20 (generateMockIndicators 1700320340000 0.5 0.5 ''AAPL'')
   \<and> sma50 (generateMockIndicators 1700320340000 0 0.5 ''AAPL'')
     \<noteq> sma50 (generateMockIndicators 1700320340000 0 0.25 ''AAPL'')
   \<and> rsi (generateMockIndicators 1700320340000 0 0.5 ''AAPL'')
     = rsi (generateMockIndicators 1700320340000 0.5 0.5 ''AAPL'')
   \<and> currentPrice (generateMockIndicators 1700320340000 0 0.5 ''AAPL'')
     = currentPrice (generateMockIndicators 1700320340000 0.5 0.5 ''AAPL'')"
  by (simp add: generateMockIndicators_def Let_def)

section \<open>The filter of the cycle\<close>

lemma symbolHash_AAPL: "symbolHash ''AAPL'' = 286"
  by (simp add: symbolHash_def)

lemma neutral_zone:
  fixes x :: real
  assumes "- 1 \<le> x" "x \<le> 1"
  shows "max 0 (min 100 (40 + x * 10)) = 40 + x * 10"
    and "\<not> 40 + x * 10 < 30" and "\<not> 40 + x * 10 > 70"
  using assms by (auto simp: max_def min_def)

lemma mock0:
  "generateMockIndicators (nowIndicators env0) (random20 env0) (random50 env0) ''AAPL''
     = indicators0"
  using neutral_zone(1) [of "sin 2"]
  by (simp add: generateMockIndicators_def Let_def symbolHash_AAPL env0_def indicators0_def)

lemma decision0:
  "rsiDecision SignalGenerator (nowOverride env0) ''AAPL'' indicators0 = (BUY, 53 / 100)"
  using neutral_zone(2,3) [of "sin 2"]
  by (simp add: rsiDecision_def SignalGenerator_def symbolHash_AAPL Let_def env0_def
      indicators0_def)

lemma signal0:
  "generateRSISignal SignalGenerator env0 (Symbol ''AAPL'') =
     \<lparr>symbol = Symbol ''AAPL'', signal = BUY, confidence = 63 / 100,
      indicators = Some (indicators.truncate indicators0), shouldExecute = True\<rparr>"
proof -
  have c: "confirmation BUY (53 / 100) indicators0 = 63 / 100"
    by (simp add: confirmation_def indicators0_def)
  have m: "minConfidence SignalGenerator = 6 / 10"
    by (simp add: SignalGenerator_def)
  show ?thesis
    by (simp add: generateRSISignal_def mock0 signalFromIndicators_def decision0 c m)
qed

lemma shouldExecute_iff:
  assumes "0 < minConfidence g" "minConfidence g \<le> 1"
  shows "shouldExecute (generateRSISignal g env sv)
     \<longleftrightarrow> confidence (generateRSISignal g env sv) \<ge> minConfidence g"
proof (cases sv)
  case (Symbol s)
  then show ?thesis using assms
    by (auto simp add: generateRSISignal_def shouldExecute_signalFromIndicators
        confidence_signalFromIndicators)
next
  case NotAString
  then show ?thesis using assms
    by (simp add: generateRSISignal_def errorSignal_def)
qed

lemma set_generateSignalsForSymbols:
  "x \<in> set (generateSignalsForSymbols g env syms) \<Longrightarrow> \<exists>e sv. x = generateRSISignal g e sv"
  by (auto simp add: generateSignalsForSymbols_def)

text \<open>
  C4 fails on the code: with the constructors' own settings (generator 0.6, loop 0.7) the
  signal generated for \<open>AAPL\<close> in the environment \<open>env0\<close> is a BUY of confidence 0.63 with
  \<open>shouldExecute = true\<close>, and the second conjunct of the loop's filter excludes it.
\<close>

theorem C4_counterexample:
  "shouldExecute (generateRSISignal SignalGenerator env0 (Symbol ''AAPL''))
   \<and> signal (generateRSISignal SignalGenerator env0 (Symbol ''AAPL'')) = BUY
   \<and> confidence (generateRSISignal SignalGenerator env0 (Symbol ''AAPL'')) = 0.63
   \<and> \<not> confidence (generateRSISignal SignalGenerator env0 (Symbol ''AAPL''))
          \<ge> tradeMinConfidence AutomatedTrader
   \<and> executableSignals AutomatedTrader
        [generateRSISignal SignalGenerator env0 (Symbol ''AAPL'')] = []"
  by (simp add: signal0 AutomatedTrader_def executableSignals_def)

text \<open>
  C4 as amended: when the generator's \<open>minConfidence\<close> is in (0,1], every generated signal
  has \<open>shouldExecute = true\<close> if and only if its confidence is at least the generator's
  \<open>minConfidence\<close>; and when the loop's \<open>minConfidence\<close> is at most the generator's, the
  filter of the cycle selects exactly the generated signals with \<open>shouldExecute\<close> that are not
  HOLD, so its confidence conjunct excludes nothing.
\<close>

theorem C4_shouldExecute:
  assumes "0 < minConfidence g" "minConfidence g \<le> 1"
  shows "(shouldExecute (generateRSISignal g env sv)
            \<longleftrightarrow> confidence (generateRSISignal g env sv) \<ge> minConfidence g)
    \<and> (tradeMinConfidence t \<le> minConfidence g \<longrightarrow>
         executableSignals t (generateSignalsForSymbols g envs syms)
           = filter (\<lambda>x. shouldExecute x \<and> signal x \<noteq> HOLD)
               (generateSignalsForSymbols g envs syms))"
proof -
  have "tradeMinConfidence t \<le> minConfidence g \<Longrightarrow>
         executableSignals t (generateSignalsForSymbols g envs syms)
           = filter (\<lambda>x. shouldExecute x \<and> signal x \<noteq> HOLD)
               (generateSignalsForSymbols g envs syms)"
    unfolding executableSignals_def
  proof (rule filter_cong [OF refl])
    fix x
    assume le: "tradeMinConfidence t \<le> minConfidence g"
      and "x \<in> set (generateSignalsForSymbols g envs syms)"
    then obtain e v where x: "x = generateRSISignal g e v"
      using set_generateSignalsForSymbols by blast
    have "shouldExecute x \<Longrightarrow> tradeMinConfidence t \<le> confidence x"
      using shouldExecute_iff [OF assms, of e v] le x by simp
    then show "(shouldExecute x \<and> tradeMinConfidence t \<le> confidence x \<and> signal x \<noteq> HOLD)
       = (shouldExecute x \<and> signal x \<noteq> HOLD)"
      by blast
  qed
  then show ?thesis
    using shouldExecute_iff [OF assms, of env sv] by blast
qed

theorem C4_shouldExecute_witness:
  "0 < minConfidence SignalGenerator \<and> minConfidence SignalGenerator \<le> 1
   \<and> tradeMinConfidence (AutomatedTrader\<lparr>tradeMinConfidence := 0.5\<rparr>) \<le> minConfidence SignalGenerator
   \<and> shouldExecute (generateRSISignal SignalGenerator env0 (Symbol ''AAPL''))
   \<and> confidence (generateRSISignal SignalGenerator env0 (Symbol ''AAPL''))
        \<ge> minConfidence SignalGenerator
   \<and> executableSignals (AutomatedTrader\<lparr>tradeMinConfidence := 0.5\<rparr>)
        (generateSignalsForSymbols SignalGenerator (\<lambda>i. env0) [Symbol ''AAPL''])
       = [generateRSISignal SignalGenerator env0 (Symbol ''AAPL'')]"
proof -
  have a: "0 < minConfidence SignalGenerator" "minConfidence SignalGenerator \<le> 1"
    by (simp_all add: SignalGenerator_def)
  have m: "minConfidence SignalGenerator = 6 / 10"
    by (simp add: SignalGenerator_def)
  have b: "generateSignalsForSymbols SignalGenerator (\<lambda>i. env0) [Symbol ''AAPL'']
       = [generateRSISignal SignalGenerator env0 (Symbol ''AAPL'')]"
    by (simp add: generateSignalsForSymbols_def enumerate_eq_zip)
  show ?thesis
    using C4_shouldExecute [OF a, of env0 "Symbol ''AAPL''"
        "AutomatedTrader\<lparr>tradeMinConfidence := 0.5\<rparr>" "\<lambda>i. env0" "[Symbol ''AAPL'']"]
    by (simp add: b signal0 m)
qed

section \<open>Trade execution\<close>

lemma cancelOrders_attempts:
  "filter isDelete (cancelOrders gw hist ods) = map (\<lambda>od. DeleteOrder (order_id od)) ods"
  by (induction ods arbitrary: hist) (auto simp: Let_def isDelete_def split: option.splits)

lemma cancelOrders_actions:
  "a \<in> set (cancelOrders gw hist ods) \<Longrightarrow> (\<exists>i. a = DeleteOrder i) \<or> (\<exists>m. a = LogWarn m)"
  by (induction ods arbitrary: hist) (auto simp: Let_def split: option.splits)

lemma cancelOrders_member:
  "od \<in> set ods \<Longrightarrow> DeleteOrder (order_id od) \<in> set (cancelOrders gw hist ods)"
proof -
  assume "od \<in> set ods"
  then have "DeleteOrder (order_id od) \<in> set (map (\<lambda>od. DeleteOrder (order_id od)) ods)"
    by auto
  then have "DeleteOrder (order_id od) \<in> set (filter isDelete (cancelOrders gw hist ods))"
    by (simp only: cancelOrders_attempts)
  then show ?thesis by simp
qed

lemma executeTradeFromSignal_get_fails:
  "getOrders gw hist (symbol s) = Inl msg \<Longrightarrow>
     executeTradeFromSignal gw t tag hist s =
       ([GetOpenOrders (symbol s)],
        \<lparr>success = False, orderId = None, error_message = Some msg, result_signal = s,
         positionSize = None\<rparr>)"
  by (simp add: executeTradeFromSignal_def tryExecute_def Let_def)

lemma executeTradeFromSignal_post:
  assumes "getOrders gw hist (symbol s) = Inr existing"
  shows "executeTradeFromSignal gw t tag hist s =
     (let query = [GetOpenOrders (symbol s)];
          performed = query @ cancellationPass gw (hist @ query) (oppositeSideOrders s existing);
          od = orderData s (getPositionSize (confidence s) (maxPositionSize t)) tag
      in (performed @ [PostOrder od],
          case postOrder gw (hist @ performed) od of
            Inl msg \<Rightarrow> \<lparr>success = False, orderId = None, error_message = Some msg,
                         result_signal = s, positionSize = None\<rparr>
          | Inr oid \<Rightarrow> \<lparr>success = True, orderId = Some oid, error_message = None,
                         result_signal = s,
                         positionSize = Some (getPositionSize (confidence s) (maxPositionSize t))\<rparr>))"
  using assms
  by (simp add: executeTradeFromSignal_def tryExecute_def Let_def split: sum.splits)

lemma run0:
  "executeTradeFromSignal gateway0 AutomatedTrader ''t1'' [] buySignal =
     ([GetOpenOrders (Symbol ''AAPL''), DeleteOrder ''o1'', LogWarn ''cancel rejected'', Wait 1000,
       PostOrder (orderData buySignal 9 ''t1'')],
      \<lparr>success = True, orderId = Some ''n1'', error_message = None, result_signal = buySignal,
       positionSize = Some 9\<rparr>)"
proof -
  have g: "getOrders gateway0 [] (symbol buySignal) =
       Inr [\<lparr>order_id = ''o1'', side = ''sell''\<rparr>, \<lparr>order_id = ''o2'', side = ''buy''\<rparr>]"
    by (simp add: gateway0_def)
  have o: "oppositeSideOrders buySignal
       [\<lparr>order_id = ''o1'', side = ''sell''\<rparr>, \<lparr>order_id = ''o2'', side = ''buy''\<rparr>]
       = [\<lparr>order_id = ''o1'', side = ''sell''\<rparr>]"
    by (simp add: oppositeSideOrders_def buySignal_def)
  have sz: "getPositionSize (confidence buySignal) (maxPositionSize AutomatedTrader) = 9"
    by (simp add: getPositionSize_def buySignal_def AutomatedTrader_def)
  have sy: "symbol buySignal = Symbol ''AAPL''"
    by (simp add: buySignal_def)
  show ?thesis
    unfolding executeTradeFromSignal_post [OF g] Let_def o sz sy
    by (simp add: cancellationPass_def gateway0_def)
qed

lemma size0: "getPositionSize (confidence buySignal) (maxPositionSize AutomatedTrader) = 9"
  by (simp add: getPositionSize_def buySignal_def AutomatedTrader_def)

text \<open>
  C1: whenever an execution submits its order, the gateway had answered the query for the
  open orders of the signal's symbol, and the actions of the execution are, in this order:
  that query, the cancellation pass, the settle delay of 1000 ms (when there was at least one
  opposite-side order), and the submission as the last action. The pass requests the cancel
  of every returned order whose side differs from the signal's side, exactly once each and
  in order, whatever the gateway answers to the cancels (a rejected cancel only adds a
  logged warning), and contains no submission.
\<close>

theorem C1_cancel_before_submit:
  assumes "executeTradeFromSignal gw t tag hist s = (acts, r)"
    and "PostOrder od \<in> set acts"
  shows "\<exists>existing cancels.
      getOrders gw hist (symbol s) = Inr existing
      \<and> cancels = cancelOrders gw (hist @ [GetOpenOrders (symbol s)]) (oppositeSideOrders s existing)
      \<and> acts = [GetOpenOrders (symbol s)] @ cancels
                 @ (if oppositeSideOrders s existing = [] then [] else [Wait 1000])
                 @ [PostOrder od]
      \<and> (\<forall>x \<in> set existing. side x \<noteq> toLowerCase (signal s)
            \<longrightarrow> DeleteOrder (order_id x) \<in> set cancels)
      \<and> filter isDelete cancels
          = map (\<lambda>x. DeleteOrder (order_id x)) (oppositeSideOrders s existing)
      \<and> PostOrder od \<notin> set cancels"
proof (cases "getOrders gw hist (symbol s)")
  case (Inl msg)
  with assms show ?thesis
    by (auto simp add: executeTradeFromSignal_get_fails)
next
  case (Inr existing)
  define opp where "opp = oppositeSideOrders s existing"
  define cancels where "cancels = cancelOrders gw (hist @ [GetOpenOrders (symbol s)]) opp"
  define n where "n = getPositionSize (confidence s) (maxPositionSize t)"
  have pass: "cancellationPass gw (hist @ [GetOpenOrders (symbol s)]) opp
      = cancels @ (if opp = [] then [] else [Wait 1000])"
    by (simp add: cancellationPass_def cancels_def)
  have acts: "acts = [GetOpenOrders (symbol s)] @ cancels
      @ (if opp = [] then [] else [Wait 1000]) @ [PostOrder (orderData s n tag)]"
    using assms(1) executeTradeFromSignal_post [OF Inr, of t tag]
    by (simp add: Let_def pass opp_def [symmetric] n_def [symmetric])
  have nopost: "PostOrder od \<notin> set cancels"
    using cancelOrders_actions [of "PostOrder od" gw _ opp] by (auto simp: cancels_def)
  with assms(2) acts have od: "od = orderData s n tag"
    by (auto split: if_splits)
  have mem: "\<forall>x \<in> set existing. side x \<noteq> toLowerCase (signal s)
            \<longrightarrow> DeleteOrder (order_id x) \<in> set cancels"
    using cancelOrders_member [of _ opp gw]
    by (auto simp: cancels_def opp_def oppositeSideOrders_def)
  have att: "filter isDelete cancels = map (\<lambda>x. DeleteOrder (order_id x)) opp"
    by (simp add: cancels_def cancelOrders_attempts)
  have body: "getOrders gw hist (symbol s) = Inr existing
      \<and> cancels = cancelOrders gw (hist @ [GetOpenOrders (symbol s)]) (oppositeSideOrders s existing)
      \<and> acts = [GetOpenOrders (symbol s)] @ cancels
                 @ (if oppositeSideOrders s existing = [] then [] else [Wait 1000])
                 @ [PostOrder od]
      \<and> (\<forall>x \<in> set existing. side x \<noteq> toLowerCase (signal s)
            \<longrightarrow> DeleteOrder (order_id x) \<in> set cancels)
      \<and> filter isDelete cancels
          = map (\<lambda>x. DeleteOrder (order_id x)) (oppositeSideOrders s existing)
      \<and> PostOrder od \<notin> set cancels"
    unfolding opp_def [symmetric] cancels_def [symmetric]
    using Inr acts od mem att nopost by simp
  show ?thesis
    by (rule exI [of _ existing], rule exI [of _ cancels], rule body)
qed

theorem C1_cancel_before_submit_witness:
  "executeTradeFromSignal gateway0 AutomatedTrader ''t1'' [] buySignal =
     ([GetOpenOrders (Symbol ''AAPL''), DeleteOrder ''o1'', LogWarn ''cancel rejected'', Wait 1000,
       PostOrder (orderData buySignal 9 ''t1'')],
      \<lparr>success = True, orderId = Some ''n1'', error_message = None, result_signal = buySignal,
       positionSize = Some 9\<rparr>)
   \<and> (\<exists>existing cancels.
      getOrders gateway0 [] (symbol buySignal) = Inr existing
      \<and> cancels = cancelOrders gateway0 ([] @ [GetOpenOrders (symbol buySignal)])
                    (oppositeSideOrders buySignal existing)
      \<and> [GetOpenOrders (Symbol ''AAPL''), DeleteOrder ''o1'', LogWarn ''cancel rejected'',
          Wait 1000, PostOrder (orderData buySignal 9 ''t1'')]
         = [GetOpenOrders (symbol buySignal)] @ cancels
                 @ (if oppositeSideOrders buySignal existing = [] then [] else [Wait 1000])
                 @ [PostOrder (orderData buySignal 9 ''t1'')]
      \<and> (\<forall>x \<in> set existing. side x \<noteq> toLowerCase (signal buySignal)
            \<longrightarrow> DeleteOrder (order_id x) \<in> set cancels)
      \<and> filter isDelete cancels
          = map (\<lambda>x. DeleteOrder (order_id x)) (oppositeSideOrders buySignal existing)
      \<and> PostOrder (orderData buySignal 9 ''t1'') \<notin> set cancels)"
  using C1_cancel_before_submit [OF run0, of "orderData buySignal 9 ''t1''"] run0
  by simp

text \<open>
  C9 fails on the code in one field: the object returned on failure has no \<open>positionSize\<close>.
\<close>

theorem C9_counterexample:
  "positionSize (snd (executeTradeFromSignal gatewayDown AutomatedTrader ''t1'' [] buySignal))
     = None
   \<and> \<not> success (snd (executeTradeFromSignal gatewayDown AutomatedTrader ''t1'' [] buySignal))"
  by (simp add: executeTradeFromSignal_get_fails gatewayDown_def)

text \<open>
  C9 as amended: for every signal and every behaviour of the gateway, \<open>executeTradeFromSignal\<close>
  returns a result object that carries the signal; an exception raised in the \<open>try\<close> block
  becomes \<open>success = false\<close> with its message in \<open>error\<close>. On success the object has the order
  id the gateway answered to the submission and the position size, and no error; on failure
  it has the message of the failed query or submission, and neither \<open>orderId\<close> nor
  \<open>positionSize\<close>.
\<close>

theorem C9_result_record:
  assumes "executeTradeFromSignal gw t tag hist s = (acts, r)"
  shows "result_signal r = s
    \<and> (case snd (tryExecute gw t tag hist s) of
          Inl msg \<Rightarrow> \<not> success r \<and> error_message r = Some msg
        | Inr r' \<Rightarrow> r = r' \<and> success r)
    \<and> (success r \<longrightarrow>
          (\<exists>oid. postOrder gw (hist @ butlast acts)
                    (orderData s (getPositionSize (confidence s) (maxPositionSize t)) tag) = Inr oid
                 \<and> orderId r = Some oid)
          \<and> error_message r = None
          \<and> positionSize r = Some (getPositionSize (confidence s) (maxPositionSize t)))
    \<and> (\<not> success r \<longrightarrow>
          orderId r = None \<and> positionSize r = None
          \<and> (\<exists>msg. error_message r = Some msg
                \<and> (getOrders gw hist (symbol s) = Inl msg
                    \<or> postOrder gw (hist @ butlast acts)
                         (orderData s (getPositionSize (confidence s) (maxPositionSize t)) tag)
                       = Inl msg)))"
proof (cases "getOrders gw hist (symbol s)")
  case (Inl msg)
  with assms show ?thesis
    by (auto simp add: executeTradeFromSignal_get_fails tryExecute_def Let_def)
next
  case (Inr existing)
  show ?thesis
    using assms Inr executeTradeFromSignal_post [OF Inr, of t tag]
    by (auto simp add: tryExecute_def Let_def split: sum.splits)
qed

theorem C9_result_record_witness:
  "executeTradeFromSignal gateway0 AutomatedTrader ''t1'' [] buySignal =
     ([GetOpenOrders (Symbol ''AAPL''), DeleteOrder ''o1'', LogWarn ''cancel rejected'', Wait 1000,
       PostOrder (orderData buySignal 9 ''t1'')],
      \<lparr>success = True, orderId = Some ''n1'', error_message = None, result_signal = buySignal,
       positionSize = Some 9\<rparr>)
   \<and> postOrder gateway0
        [GetOpenOrders (Symbol ''AAPL''), DeleteOrder ''o1'', LogWarn ''cancel rejected'',
         Wait 1000]
        (orderData buySignal 9 ''t1'') = Inr ''n1''"
  using C9_result_record [OF run0] run0
  by (simp add: size0)

section \<open>Updating the parameters\<close>

lemma updateParameters_fields:
  "watchedSymbols (updateParameters ps t)
     = (case symbols ps of Some xs \<Rightarrow> xs | None \<Rightarrow> watchedSymbols t)"
  "maxPositionSize (updateParameters ps t)
     = (case newMaxPositionSize ps of Some x \<Rightarrow> if x \<noteq> 0 then x else maxPositionSize t
        | None \<Rightarrow> maxPositionSize t)"
  "tradeMinConfidence (updateParameters ps t)
     = (case newMinConfidence ps of Some x \<Rightarrow> if x \<noteq> 0 then x else tradeMinConfidence t
        | None \<Rightarrow> tradeMinConfidence t)"
  "isRunning (updateParameters ps t) = isRunning t"
  "tradingInterval (updateParameters ps t) = tradingInterval t"
  by (simp_all add: updateParameters_def truthy_def Let_def split: option.splits)

text \<open>
  C8 on the code at a provided value that is falsy: \<open>updateParameters\<close> called with
  \<open>minConfidence = 0\<close> leaves the loop's \<open>minConfidence\<close> at 0.7, although the field was
  provided; the route's validator accepts 0 and the handler answers 200 with the state
  unchanged.
\<close>

theorem C8_minConfidence_zero:
  "tradeMinConfidence
     (updateParameters \<lparr>symbols = None, newMaxPositionSize = None, newMinConfidence = Some 0\<rparr>
        AutomatedTrader) = 7 / 10
   \<and> putParameters
        \<lparr>put_symbols = None, put_maxPositionSize = None, put_minConfidence = Some 0,
         put_rsiOversold = None, put_rsiOverbought = None\<rparr> (AutomatedTrader, SignalGenerator)
       = (200, AutomatedTrader, SignalGenerator)"
  by (simp add: putParameters_def validParameters_def optional_def isFloat_def
      updateParameters_def truthy_def AutomatedTrader_def Let_def)

section \<open>Starting and stopping\<close>

lemma startTrading_call_running:
  "isRunning (loop p) \<Longrightarrow> startTrading_call syms m p = p"
  by (simp add: startTrading_call_def)

lemma timerDelay_minutes:
  assumes "of_int \<lfloor>m\<rfloor> = m" and "1 \<le> m" and "m \<le> 35791"
  shows "timerDelay (m * 60 * 1000) = m * 60 * 1000"
proof -
  obtain k :: int where k: "m = of_int k"
    using assms(1) by metis
  have whole: "m * 60 * 1000 = of_int (k * 60000)"
    by (simp add: k)
  have "1 \<le> m * 60 * 1000" and "m * 60 * 1000 \<le> 2147483647"
    using assms(2,3) by simp_all
  then have "timerDelay (m * 60 * 1000) = of_int \<lfloor>m * 60 * 1000\<rfloor>"
    by (simp add: timerDelay_def)
  also have "\<dots> = m * 60 * 1000"
    unfolding whole by simp
  finally show ?thesis .
qed

lemma startTrading_stopped:
  assumes "\<not> isRunning (loop p)"
  shows "startTrading syms m p =
     p\<lparr>loop := (case syms of Some xs \<Rightarrow> (loop p)\<lparr>watchedSymbols := xs\<rparr> | None \<Rightarrow> loop p)
                  \<lparr>isRunning := True, tradingInterval := Some (nextHandle p)\<rparr>,
       timers := timers p @ [(nextHandle p, timerDelay (m * 60 * 1000))],
       nextHandle := nextHandle p + 1,
       cycles := cycles p + 1\<rparr>"
  using assms
  by (simp add: startTrading_def startTrading_call_def startTrading_resume_def Let_def nth_append
      split: option.splits)

lemma non_overlapping_calls:
  assumes "awaiting p = []"
    and "tradingInterval (loop p) = None \<longrightarrow> timers p = [] \<and> \<not> isRunning (loop p)"
    and "\<forall>h. tradingInterval (loop p) = Some h \<longrightarrow> isRunning (loop p) \<and> (\<exists>d. timers p = [(h, d)])"
    and "q = startTrading syms m p \<or> q = stopTrading p"
  shows "awaiting q = []
    \<and> (tradingInterval (loop q) = None \<longrightarrow> timers q = [] \<and> \<not> isRunning (loop q))
    \<and> (\<forall>h. tradingInterval (loop q) = Some h \<longrightarrow> isRunning (loop q) \<and> (\<exists>d. timers q = [(h, d)]))"
proof (cases "isRunning (loop p)")
  case True
  then have "startTrading syms m p = p" by (simp add: startTrading_def)
  moreover from True assms(2) obtain h where "tradingInterval (loop p) = Some h" by auto
  ultimately show ?thesis using assms True
    by (auto simp add: stopTrading_def clearInterval_def)
next
  case False
  then have "stopTrading p = p" by (simp add: stopTrading_def)
  moreover from False assms(3) have "tradingInterval (loop p) = None"
    by (cases "tradingInterval (loop p)") auto
  ultimately show ?thesis using assms False
    by (auto simp add: startTrading_stopped split: option.splits)
qed

text \<open>
  C6 on the code when \<open>stopTrading\<close> runs while \<open>startTrading\<close> is suspended at its \<open>await\<close>:
  after start, stop, and the resumption of the start, the loop is not running and yet holds
  the handle of an armed timer, which a further stop does not clear; after start, stop,
  start and both resumptions, two timers are armed. The timer left behind by the first
  sequence still fires and begins a second cycle.
\<close>

theorem C6_stop_during_start:
  "\<not> isRunning (loop (run process0 [CallStart None 10, CallStop, ResumeStart 0]))
   \<and> tradingInterval (loop (run process0 [CallStart None 10, CallStop, ResumeStart 0])) = Some 1
   \<and> timers (run process0 [CallStart None 10, CallStop, ResumeStart 0]) = [(1, 600000)]
   \<and> stopTrading (run process0 [CallStart None 10, CallStop, ResumeStart 0])
       = run process0 [CallStart None 10, CallStop, ResumeStart 0]
   \<and> cycles (run process0 [CallStart None 10, CallStop, ResumeStart 0, TimerFires 1]) = 2
   \<and> timers (run process0 [CallStart None 10, CallStop, CallStart None 10,
                            ResumeStart 0, ResumeStart 0]) = [(1, 600000), (2, 600000)]"
  by (simp add: run_def process0_def AutomatedTrader_def startTrading_call_def
      startTrading_resume_def stopTrading_def timerDelay_def Let_def)

text \<open>
  C10 fails on the code: \<open>startTrading\<close> called with 2000 minutes arms a timer of
  2000 minutes (120000000 ms), not of 1440 minutes.
\<close>

theorem C10_counterexample:
  "timers (startTrading None 2000 process0) = [(1, 120000000)]
   \<and> (120000000::real) \<noteq> min 1440 (max 1 2000) * 60 * 1000"
  by (simp add: startTrading_stopped process0_def AutomatedTrader_def timerDelay_def)

text \<open>
  C10 as amended: called while the loop is not running, \<open>startTrading\<close> sets the loop
  running, begins one cycle, and arms one recurring timer, storing its handle, on the delay
  \<open>intervalMinutes * 60 * 1000\<close> ms without any clamping to [1,1440]: the period is that
  delay, truncated to whole milliseconds, when it lies between 1 and 2147483647 ms, and 1 ms
  otherwise; for an integer \<open>intervalMinutes\<close> between 1 and 35791 the period is exactly
  \<open>intervalMinutes\<close> minutes. Called while the loop is running it changes nothing. The route
  rejects with status 400, leaving the process unchanged, a request whose \<open>intervalMinutes\<close>
  is not an integer in [1,1440]; a valid request calls \<open>startTrading\<close> with the given
  interval, or with 10 when none is given.
\<close>

theorem C10_start:
  "(\<not> isRunning (loop p) \<longrightarrow>
       isRunning (loop (startTrading syms m p))
       \<and> cycles (startTrading syms m p) = cycles p + 1
       \<and> timers (startTrading syms m p)
           = timers p @ [(nextHandle p,
                          if 1 \<le> m * 60 * 1000 \<and> m * 60 * 1000 \<le> 2147483647
                          then of_int \<lfloor>m * 60 * 1000\<rfloor> else 1)]
       \<and> tradingInterval (loop (startTrading syms m p)) = Some (nextHandle p))
   \<and> (\<not> isRunning (loop p) \<and> of_int \<lfloor>m\<rfloor> = m \<and> 1 \<le> m \<and> m \<le> 35791 \<longrightarrow>
       timers (startTrading syms m p) = timers p @ [(nextHandle p, m * 60 * 1000)])
   \<and> (isRunning (loop p) \<longrightarrow> startTrading syms m p = p)
   \<and> (body_intervalMinutes b = Some x \<and> \<not> (of_int \<lfloor>x\<rfloor> = x \<and> 1 \<le> x \<and> x \<le> 1440)
        \<longrightarrow> postStart b p = (400, p))
   \<and> (validStart b \<longrightarrow>
        postStart b p = (200, startTrading (body_symbols b)
                                (case body_intervalMinutes b of None \<Rightarrow> 10 | Some y \<Rightarrow> y) p))"
proof -
  have "isRunning (loop p) \<longrightarrow> startTrading syms m p = p"
    by (simp add: startTrading_def)
  moreover have "\<not> isRunning (loop p) \<longrightarrow>
       isRunning (loop (startTrading syms m p))
       \<and> cycles (startTrading syms m p) = cycles p + 1
       \<and> timers (startTrading syms m p)
           = timers p @ [(nextHandle p,
                          if 1 \<le> m * 60 * 1000 \<and> m * 60 * 1000 \<le> 2147483647
                          then of_int \<lfloor>m * 60 * 1000\<rfloor> else 1)]
       \<and> tradingInterval (loop (startTrading syms m p)) = Some (nextHandle p)"
    by (simp add: startTrading_stopped timerDelay_def)
  moreover have "\<not> isRunning (loop p) \<and> of_int \<lfloor>m\<rfloor> = m \<and> 1 \<le> m \<and> m \<le> 35791 \<longrightarrow>
       timers (startTrading syms m p) = timers p @ [(nextHandle p, m * 60 * 1000)]"
  proof (intro impI)
    assume h: "\<not> isRunning (loop p) \<and> of_int \<lfloor>m\<rfloor> = m \<and> 1 \<le> m \<and> m \<le> 35791"
    then have "timerDelay (m * 60 * 1000) = m * 60 * 1000"
      using timerDelay_minutes [of m] by blast
    with h show "timers (startTrading syms m p) = timers p @ [(nextHandle p, m * 60 * 1000)]"
      by (simp add: startTrading_stopped)
  qed
  moreover have "body_intervalMinutes b = Some x \<and> \<not> (of_int \<lfloor>x\<rfloor> = x \<and> 1 \<le> x \<and> x \<le> 1440)
        \<longrightarrow> postStart b p = (400, p)"
    by (simp add: postStart_def validStart_def isInt_def)
  moreover have "validStart b \<longrightarrow>
        postStart b p = (200, startTrading (body_symbols b)
                                (case body_intervalMinutes b of None \<Rightarrow> 10 | Some y \<Rightarrow> y) p)"
    by (simp add: postStart_def)
  ultimately show ?thesis by blast
qed

theorem C10_start_witness:
  "(\<not> isRunning (loop process0)
    \<and> of_int \<lfloor>2000::real\<rfloor> = (2000::real) \<and> (1::real) \<le> 2000 \<and> (2000::real) \<le> 35791
    \<and> timers (startTrading None 2000 process0) = [(1, 120000000)]
    \<and> timers (startTrading None 40000 process0) = [(1, 1)]
    \<and> body_intervalMinutes \<lparr>body_symbols = None, body_intervalMinutes = Some 2000\<rparr> = Some 2000
    \<and> \<not> (of_int \<lfloor>2000::real\<rfloor> = (2000::real) \<and> (1::real) \<le> 2000 \<and> (2000::real) \<le> 1440)
    \<and> postStart \<lparr>body_symbols = None, body_intervalMinutes = Some 2000\<rparr> process0 = (400, process0))
   \<and> (isRunning (loop (startTrading None 15 process0))
    \<and> startTrading None 30 (startTrading None 15 process0) = startTrading None 15 process0
    \<and> validStart \<lparr>body_symbols = None, body_intervalMinutes = Some 15\<rparr>
    \<and> postStart \<lparr>body_symbols = None, body_intervalMinutes = Some 15\<rparr> process0
        = (200, startTrading None 15 process0))"
proof -
  have a: "\<not> isRunning (loop process0)"
    by (simp add: process0_def AutomatedTrader_def)
  have b: "isRunning (loop (startTrading None 15 process0))"
    by (simp add: startTrading_stopped [OF a])
  have c: "validStart \<lparr>body_symbols = None, body_intervalMinutes = Some 15\<rparr>"
    by (simp add: validStart_def isInt_def)
  have d: "timers process0 = []" "nextHandle process0 = 1"
    by (simp_all add: process0_def)
  show ?thesis
    using a b c
      C10_start [of process0 None 2000 "\<lparr>body_symbols = None, body_intervalMinutes = Some 2000\<rparr>" 2000]
      C10_start [of process0 None 40000
                    "\<lparr>body_symbols = None, body_intervalMinutes = Some 2000\<rparr>" 2000]
      C10_start [of "startTrading None 15 process0" None 30
                    "\<lparr>body_symbols = None, body_intervalMinutes = Some 15\<rparr>" 15]
      C10_start [of process0 None 15 "\<lparr>body_symbols = None, body_intervalMinutes = Some 15\<rparr>" 15]
    by (simp add: d)
qed

end
